theory Spec2Isabelle
  imports
    Complex_Main
    "HOL-Library.Multiset"
    "HOL-Library.Sublist"
    "HOL-Library.Char_ord"
    "HOL-Library.List_Lexorder"
    "HOL-Library.Product_Lexorder"
    "HOL-Library.Word"
begin

section \<open>The asset table\<close>

text \<open>
  \<^verbatim>\<open>app.py\<close> reads one CSV file into a pandas data frame and derives everything it
  shows from that frame. A row of the frame is a record with one field per column the
  script reads, and a cell that pandas holds as NaN (an empty CSV field) is \<open>None\<close>.
  The frame is the list of its rows in file order; the row labels, which the script
  never reads, are left out.

  The script computes with the cells of one column only, the estimated value. pandas
  gives that column the dtype \<^verbatim>\<open>int64\<close> when every cell of the file is an integer
  and \<^verbatim>\<open>float64\<close> otherwise, so a cell is a 64-bit integer or a float, and in a
  column that was read from a file either every cell is an integer or none is. A float
  cell is the real number the float stands for.
\<close>

datatype number = Int64 "64 word" | Float64 real

record row =
  asset_name :: "string option"          \<comment> \<open>'Real Property Asset Name'\<close>
  state :: "string option"               \<comment> \<open>'State'\<close>
  latitude :: "real option"              \<comment> \<open>'Latitude'\<close>
  longitude :: "real option"             \<comment> \<open>'Longitude'\<close>
  est_value :: "number option"           \<comment> \<open>'Estimated Asset Value (USD)'\<close>
  missing_valuation :: "bool option"     \<comment> \<open>'Missing Valuation'\<close>

type_synonym dataframe = "row list"

text \<open>
  What a sum is: an \<^verbatim>\<open>int64\<close>, or a \<^verbatim>\<open>float64\<close> that is finite, infinite
  or NaN.
\<close>

datatype scalar = IntVal "64 word" | Fin real | PInf | NInf | NaN

fun to_float :: "number \<Rightarrow> real" where
  "to_float (Int64 w) = real_of_int (sint w)"
| "to_float (Float64 x) = x"

fun isnan :: "scalar \<Rightarrow> bool" where
  "isnan NaN = True"
| "isnan _ = False"


text \<open>The order of sums that are not NaN: by sign of infinity, then by value.\<close>

fun skey :: "scalar \<Rightarrow> int \<times> real" where
  "skey (IntVal w) = (0, real_of_int (sint w))"
| "skey (Fin x) = (0, x)"
| "skey PInf = (1, 0)"
| "skey NInf = (- 1, 0)"
| "skey NaN = (2, 0)"

section \<open>What the libraries decide\<close>

text \<open>
  Three results the script shows are computed inside numpy and pandas by code that is
  not the script's and that differs between versions and machines: the float sum of a
  column (\<^verbatim>\<open>numpy.add.reduce\<close>, which adds in blocks), the float sum of a group
  (a compensated sum over the rows of the group, in row order) and the order in which
  \<^verbatim>\<open>argsort\<close> of kind \<^verbatim>\<open>'quicksort'\<close> leaves equal keys. They are parameters of
  the model. Integer sums are not: \<^verbatim>\<open>int64\<close> addition wraps around, whatever the
  order.
\<close>

record library =
  np_sum :: "real list \<Rightarrow> scalar"
  grp_sum :: "real list \<Rightarrow> scalar"
  argsort :: "scalar list \<Rightarrow> nat list"




section \<open>The pandas operations the script calls\<close>

fun dropna_cells :: "'a option list \<Rightarrow> 'a list" where
  "dropna_cells [] = []"
| "dropna_cells (None # xs) = dropna_cells xs"
| "dropna_cells (Some v # xs) = v # dropna_cells xs"

text \<open>
  The dtype of a column, and its cells as the machine holds them: the integers of an
  \<^verbatim>\<open>int64\<close> column, the floats of a \<^verbatim>\<open>float64\<close> column with 0 in place of NaN.
\<close>

fun is_int64 :: "number option \<Rightarrow> bool" where
  "is_int64 (Some (Int64 _)) = True"
| "is_int64 _ = False"

fun int64_cells :: "number list \<Rightarrow> 64 word list" where
  "int64_cells [] = []"
| "int64_cells (Int64 w # vs) = w # int64_cells vs"
| "int64_cells (Float64 _ # vs) = int64_cells vs"

fun fillna0 :: "number option \<Rightarrow> real" where
  "fillna0 None = 0"
| "fillna0 (Some v) = to_float v"

text \<open>
  \<^verbatim>\<open>Series.sum(skipna=True)\<close>. An \<^verbatim>\<open>int64\<close> column has no NaN and its sum is the
  wrapping sum of its cells. In a \<^verbatim>\<open>float64\<close> column, with \<open>skipna\<close> (the default,
  and what the script uses) pandas puts 0 in place of every NaN and lets numpy add the
  column up; without it a single NaN makes the result NaN.
\<close>

definition series_sum :: "library \<Rightarrow> bool \<Rightarrow> number option list \<Rightarrow> scalar" where
  "series_sum lib skipna vals =
     (if list_all is_int64 vals then IntVal (foldl (+) 0 (int64_cells (dropna_cells vals)))
      else if skipna \<or> None \<notin> set vals then np_sum lib (map fillna0 vals)
      else NaN)"

text \<open>
  \<^verbatim>\<open>Series.value_counts()\<close> (\<open>dropna=True\<close>): the number of occurrences of every
  value that is not NaN; a value that does not occur has no entry. The result is read
  with \<^verbatim>\<open>.get(key, default)\<close>.
\<close>

fun value_counts :: "'a option list \<Rightarrow> ('a \<rightharpoonup> nat)" where
  "value_counts [] = Map.empty"
| "value_counts (None # xs) = value_counts xs"
| "value_counts (Some v # xs) =
     (let c = value_counts xs
      in c(v \<mapsto> (case c v of None \<Rightarrow> 1 | Some n \<Rightarrow> Suc n)))"

definition series_get :: "('a \<rightharpoonup> 'b) \<Rightarrow> 'a \<Rightarrow> 'b \<Rightarrow> 'b" where
  "series_get s k dflt = (case s k of None \<Rightarrow> dflt | Some v \<Rightarrow> v)"

text \<open>
  \<^verbatim>\<open>df.dropna(subset=['Latitude', 'Longitude', 'Estimated Asset Value (USD)'])\<close>
  (\<open>how='any'\<close>): the mask of a row is true when every cell of the subset is present,
  and the rows whose mask is true are kept, in place.
\<close>

definition notna_all :: "row \<Rightarrow> bool" where
  "notna_all r = (latitude r \<noteq> None \<and> longitude r \<noteq> None \<and> est_value r \<noteq> None)"

fun dropna :: "dataframe \<Rightarrow> dataframe" where
  "dropna [] = []"
| "dropna (r # rs) = (if notna_all r then r # dropna rs else dropna rs)"

text \<open>
  \<^verbatim>\<open>df.groupby('State')['Estimated Asset Value (USD)'].sum()\<close>: the group keys are the
  distinct states that are not NaN, in sorted order (\<open>sort=True\<close>, \<open>dropna=True\<close>). One
  pass over the rows hands every value that is not NaN to the group of its row's state;
  \<open>group_values\<close> keeps, for each state, the values it was handed, in row order. The sum
  of a group has the dtype of the column: the wrapping sum of the integers, or the
  float sum of the group, which is 0 for a group that was handed nothing.
\<close>

definition group_keys :: "dataframe \<Rightarrow> string list" where
  "group_keys df = sort (remdups (dropna_cells (map state df)))"

fun group_values :: "dataframe \<Rightarrow> (string \<Rightarrow> number list) \<Rightarrow> (string \<Rightarrow> number list)" where
  "group_values [] acc = acc"
| "group_values (r # rs) acc =
     group_values rs
       (case state r of
          None \<Rightarrow> acc
        | Some s \<Rightarrow> (case est_value r of None \<Rightarrow> acc | Some v \<Rightarrow> acc(s := acc s @ [v])))"

definition groupby_state_sum :: "library \<Rightarrow> dataframe \<Rightarrow> (string \<times> scalar) list" where
  "groupby_state_sum lib df =
     (let groups = group_values df (\<lambda>_. []);
          int_column = list_all is_int64 (map est_value df)
      in map (\<lambda>k. (k, if int_column then IntVal (foldl (+) 0 (int64_cells (groups k)))
                       else grp_sum lib (map to_float (groups k))))
           (group_keys df))"

text \<open>
  \<^verbatim>\<open>.sort_values(ascending=False)\<close>: pandas sets the NaN sums aside, reverses the
  others, takes their \<^verbatim>\<open>argsort\<close>, reads them in that order, reverses the result
  and puts the NaN sums last. A position outside the argument, which \<^verbatim>\<open>argsort\<close>
  never returns, is passed over. The order of equal sums is the one \<^verbatim>\<open>argsort\<close>
  leaves: the script asks for no stable kind. \<^verbatim>\<open>.reset_index()\<close> turns the state
  key into a column, which the list of pairs already is, and \<^verbatim>\<open>.head(n)\<close> keeps
  the first \<open>n\<close> rows.
\<close>

definition sort_values_desc :: "library \<Rightarrow> (string \<times> scalar) list \<Rightarrow> (string \<times> scalar) list" where
  "sort_values_desc lib xs =
     (let non_nans = rev (filter (\<lambda>p. \<not> isnan (snd p)) xs);
          indexer = filter (\<lambda>i. i < length non_nans) (argsort lib (map snd non_nans))
      in rev (map (\<lambda>i. non_nans ! i) indexer) @ filter (\<lambda>p. isnan (snd p)) xs)"

definition df_head :: "nat \<Rightarrow> 'a list \<Rightarrow> 'a list" where
  "df_head n xs = take n xs"




text \<open>
  A library for the examples: its float sums never round and its sort keeps equal keys
  in the order it finds them.
\<close>

definition stable_argsort :: "scalar list \<Rightarrow> nat list" where
  "stable_argsort ks = map fst (sort_key (\<lambda>p. skey (snd p)) (enumerate 0 ks))"

definition ideal_lib :: library where
  "ideal_lib =
     \<lparr>np_sum = (\<lambda>xs. Fin (sum_list xs)), grp_sum = (\<lambda>xs. Fin (sum_list xs)),
      argsort = stable_argsort\<rparr>"

section \<open>What the page shows\<close>

text \<open>
  One render pass emits a sequence of page elements. Texts are kept without their
  decorative symbols, a metric keeps the number it formats and a popup the name and the
  value it formats. Layout (\<^verbatim>\<open>set_page_config\<close>, \<^verbatim>\<open>columns\<close>, the size of the map)
  emits nothing.
\<close>

record marker =
  location :: "real option \<times> real option"
  radius :: nat
  popup :: "string option \<times> number option"
  tooltip :: "string option"
  color :: string
  fill :: bool
  fill_color :: string

record folium_map =
  center :: "real \<times> real"
  zoom_start :: nat
  markers :: "marker list"

record bar =
  bar_x :: string
  bar_y :: scalar
  bar_color :: string

datatype metric_value = CountMetric nat | TrillionMetric scalar

datatype element =
    Error string
  | Title string
  | Markdown string
  | Header string
  | Metric string metric_value
  | StFolium folium_map
  | PlotlyChart "bar list"
  | Checkbox string
  | Dataframe dataframe

section \<open>The loader\<close>

text \<open>
  The file system gives, for a path, no file, a file \<^verbatim>\<open>read_csv\<close> cannot parse, or
  the table parsed from it. \<^verbatim>\<open>load_data\<close> catches \<^verbatim>\<open>FileNotFoundError\<close> only: it
  shows the message and returns \<^verbatim>\<open>None\<close>; any other exception leaves the function.
  The result is the exception, or the returned value with the elements shown.
  The \<^verbatim>\<open>st.cache_data\<close> decorator belongs to the framework and is not modelled: every
  call runs the body.
\<close>

datatype file_state = NoFile | Unreadable | Csv dataframe

type_synonym filesystem = "string \<Rightarrow> file_state"

datatype exn = FileNotFoundError | OtherError

definition read_csv :: "filesystem \<Rightarrow> string \<Rightarrow> exn + dataframe" where
  "read_csv fs filepath =
     (case fs filepath of
        NoFile \<Rightarrow> Inl FileNotFoundError
      | Unreadable \<Rightarrow> Inl OtherError
      | Csv data \<Rightarrow> Inr data)"

definition not_found_message :: "string \<Rightarrow> string" where
  "not_found_message filepath =
     ''Error: The file '' @ [CHR 0x27] @ filepath @ [CHR 0x27]
     @ '' was not found. Please make sure it'' @ [CHR 0x27]
     @ ''s in the same directory as app.py.''"

definition load_data :: "filesystem \<Rightarrow> string \<Rightarrow> exn + (dataframe option \<times> element list)" where
  "load_data fs filepath =
     (case read_csv fs filepath of
        Inr data \<Rightarrow> Inr (Some data, [])
      | Inl FileNotFoundError \<Rightarrow> Inr (None, [Error (not_found_message filepath)])
      | Inl e \<Rightarrow> Inl e)"

section \<open>The render pass\<close>

text \<open>
  The names the script binds are the fields of the environment; a name that is not
  bound yet holds an empty default. Every statement of the script takes the environment
  and returns the new one, with the elements it shows appended to \<open>ui\<close>.
\<close>

record env =
  df :: dataframe
  total_assets :: nat
  total_value :: scalar
  assets_with_valuation :: nat
  df_map :: dataframe
  m :: folium_map
  value_by_state :: "(string \<times> scalar) list"
  fig :: "bar list"
  ui :: "element list"

definition st :: "element \<Rightarrow> env \<Rightarrow> env" where
  "st el e = e\<lparr>ui := ui e @ [el]\<rparr>"

definition init_env :: "dataframe \<Rightarrow> element list \<Rightarrow> env" where
  "init_env data shown =
     \<lparr>df = data, total_assets = 0, total_value = IntVal 0, assets_with_valuation = 0,
      df_map = [], m = \<lparr>center = (0, 0), zoom_start = 0, markers = []\<rparr>,
      value_by_state = [], fig = [], ui = shown\<rparr>"

text \<open>Lines 36 to 54: the title and the three KPIs.\<close>

definition portfolio_overview :: "library \<Rightarrow> env \<Rightarrow> env" where
  "portfolio_overview lib e0 =
     (let e = st (Title ''Real Property Asset Analysis Dashboard'') e0;
          e = st (Markdown ''An interactive dashboard for analyzing the value and distribution of real property assets.'') e;
          e = st (Header ''Portfolio Overview'') e;
          e = e\<lparr>total_assets := length (df e)\<rparr>;
          e = e\<lparr>total_value := series_sum lib True (map est_value (df e))\<rparr>;
          e = e\<lparr>assets_with_valuation :=
                  series_get (value_counts (map missing_valuation (df e))) False 0\<rparr>;
          e = st (Metric ''Total Assets'' (CountMetric (total_assets e))) e;
          e = st (Metric ''Total Estimated Value'' (TrillionMetric (total_value e))) e;
          e = st (Metric ''Assets with Valuation'' (CountMetric (assets_with_valuation e))) e
      in st (Markdown ''---'') e)"

text \<open>Lines 57 to 78: the map, one circle marker for each row of \<open>df_map\<close>.\<close>

definition circle_marker :: "row \<Rightarrow> marker" where
  "circle_marker r =
     \<lparr>location = (latitude r, longitude r), radius = 5,
      popup = (asset_name r, est_value r), tooltip = asset_name r,
      color = ''#007bff'', fill = True, fill_color = ''#007bff''\<rparr>"

fun add_markers :: "dataframe \<Rightarrow> folium_map \<Rightarrow> folium_map" where
  "add_markers [] fm = fm"
| "add_markers (r # rs) fm = add_markers rs (fm\<lparr>markers := markers fm @ [circle_marker r]\<rparr>)"

definition geospatial :: "env \<Rightarrow> env" where
  "geospatial e0 =
     (let e = st (Header ''Geospatial Distribution of Assets'') e0;
          e = e\<lparr>df_map := dropna (df e)\<rparr>;
          e = e\<lparr>m := \<lparr>center = (39.8283, - 98.5795), zoom_start = 4, markers = []\<rparr>\<rparr>;
          e = e\<lparr>m := add_markers (df_map e) (m e)\<rparr>
      in st (StFolium (m e)) e)"

text \<open>Lines 81 to 96: the sums by state and the bar chart of the first ten.\<close>

definition px_bar :: "(string \<times> scalar) list \<Rightarrow> bar list" where
  "px_bar xs = map (\<lambda>(s, v). \<lparr>bar_x = s, bar_y = v, bar_color = s\<rparr>) xs"

definition value_analysis :: "library \<Rightarrow> env \<Rightarrow> env" where
  "value_analysis lib e0 =
     (let e = st (Header ''Value Analysis by State'') e0;
          e = e\<lparr>value_by_state := sort_values_desc lib (groupby_state_sum lib (df e))\<rparr>;
          e = e\<lparr>fig := px_bar (df_head 10 (value_by_state e))\<rparr>
      in st (PlotlyChart (fig e)) e)"

text \<open>
  Lines 100 to 102: the raw table, shown when the checkbox is ticked. \<open>checked\<close> is what
  \<^verbatim>\<open>st.checkbox\<close> returns in this pass.
\<close>

definition explore :: "bool \<Rightarrow> env \<Rightarrow> env" where
  "explore checked e0 =
     (let e = st (Header ''Explore the Data'') e0;
          e = st (Checkbox ''Show Raw Data Table'') e
      in if checked then st (Dataframe (df e)) e else e)"

definition dashboard :: "library \<Rightarrow> bool \<Rightarrow> env \<Rightarrow> env" where
  "dashboard lib checked e =
     explore checked (value_analysis lib (geospatial (portfolio_overview lib e)))"

text \<open>
  The script: load the fixed file and render the dashboard only when a table came back
  (line 34).
\<close>

definition data_path :: string where
  "data_path = ''cleaned_asset_valuation.csv''"

definition app :: "library \<Rightarrow> filesystem \<Rightarrow> bool \<Rightarrow> exn + element list" where
  "app lib fs checked =
     (case load_data fs data_path of
        Inl ex \<Rightarrow> Inl ex
      | Inr (None, shown) \<Rightarrow> Inr shown
      | Inr (Some data, shown) \<Rightarrow> Inr (ui (dashboard lib checked (init_env data shown))))"

section \<open>Reading the page\<close>

text \<open>
  The elements that carry data: a KPI, the map, the chart and the raw table. The data
  outputs of a pass are those among the elements it shows; a pass that ends in an
  exception shows none.
\<close>

fun is_data_output :: "element \<Rightarrow> bool" where
  "is_data_output (Metric _ _) = True"
| "is_data_output (StFolium _) = True"
| "is_data_output (PlotlyChart _) = True"
| "is_data_output (Dataframe _) = True"
| "is_data_output _ = False"

definition data_outputs :: "exn + element list \<Rightarrow> element list" where
  "data_outputs res = (case res of Inl _ \<Rightarrow> [] | Inr shown \<Rightarrow> filter is_data_output shown)"

section \<open>Example tables\<close>

text \<open>
  The scenario of the specification: two assets in CA, the second without a latitude,
  and one in TX whose valuation is flagged missing. Every value is an integer, so the
  column is \<^verbatim>\<open>int64\<close>.
\<close>

definition scenario :: dataframe where
  "scenario =
     [\<lparr>asset_name = Some ''A'', state = Some ''CA'', latitude = Some 1, longitude = Some 1,
       est_value = Some (Int64 100), missing_valuation = Some False\<rparr>,
      \<lparr>asset_name = Some ''B'', state = Some ''CA'', latitude = None, longitude = Some 1,
       est_value = Some (Int64 50), missing_valuation = Some False\<rparr>,
      \<lparr>asset_name = Some ''C'', state = Some ''TX'', latitude = Some 2, longitude = Some 2,
       est_value = Some (Int64 200), missing_valuation = Some True\<rparr>]"

text \<open>A table with an asset whose value and flag are both empty in the file.\<close>

definition gappy :: dataframe where
  "gappy =
     [\<lparr>asset_name = Some ''D'', state = Some ''NY'', latitude = Some 3, longitude = Some 3,
       est_value = None, missing_valuation = None\<rparr>,
      \<lparr>asset_name = Some ''E'', state = Some ''NY'', latitude = Some 4, longitude = Some 4,
       est_value = Some (Float64 100), missing_valuation = Some False\<rparr>]"



definition no_files :: filesystem where
  "no_files = (\<lambda>_. NoFile)"

section \<open>Properties of the sums\<close>



















section \<open>Properties of the sort\<close>









section \<open>Properties of the render pass\<close>

lemma value_counts_count:
  "value_counts xs v =
     (if Some v \<in> set xs then Some (length (filter (\<lambda>x. x = Some v) xs)) else None)"
proof (induction xs)
  case Nil
  show ?case by simp
next
  case (Cons x xs)
  show ?case
  proof (cases x)
    case None
    with Cons show ?thesis by simp
  next
    case (Some w)
    with Cons show ?thesis by (auto simp: Let_def filter_empty_conv)
  qed
qed

lemma get_value_counts:
  "series_get (value_counts xs) v 0 = length (filter (\<lambda>x. x = Some v) xs)"
  by (auto simp: series_get_def value_counts_count filter_empty_conv)

lemma dropna_filter: "dropna rs = filter notna_all rs"
  by (induction rs) simp_all

lemma count_flags:
  "length (filter (\<lambda>r. missing_valuation r = Some False) rs)
   + length (filter (\<lambda>r. missing_valuation r = Some True) rs)
   + length (filter (\<lambda>r. missing_valuation r = None) rs) = length rs"
proof (induction rs)
  case Nil
  show ?case by simp
next
  case (Cons r rs)
  then show ?case by (cases "missing_valuation r") auto
qed

lemma st_frame [simp]:
  "df (st el e) = df e" "total_assets (st el e) = total_assets e"
  "total_value (st el e) = total_value e"
  "assets_with_valuation (st el e) = assets_with_valuation e"
  "df_map (st el e) = df_map e" "m (st el e) = m e"
  "value_by_state (st el e) = value_by_state e" "fig (st el e) = fig e"
  "ui (st el e) = ui e @ [el]"
  by (simp_all add: st_def)

lemma init_env_sel [simp]:
  "df (init_env data shown) = data" "ui (init_env data shown) = shown"
  by (simp_all add: init_env_def)

lemma add_markers_append:
  "add_markers rs fm = fm\<lparr>markers := markers fm @ map circle_marker rs\<rparr>"
  by (induction rs arbitrary: fm) simp_all

text \<open>What each section binds and what it leaves as it was.\<close>

lemma portfolio_overview_frame:
  "df (portfolio_overview lib e) = df e"
  "total_assets (portfolio_overview lib e) = length (df e)"
  "total_value (portfolio_overview lib e) = series_sum lib True (map est_value (df e))"
  "assets_with_valuation (portfolio_overview lib e) =
     series_get (value_counts (map missing_valuation (df e))) False 0"
  by (simp_all add: portfolio_overview_def Let_def)

lemma geospatial_frame:
  "df (geospatial e) = df e"
  "total_assets (geospatial e) = total_assets e"
  "total_value (geospatial e) = total_value e"
  "assets_with_valuation (geospatial e) = assets_with_valuation e"
  "df_map (geospatial e) = dropna (df e)"
  by (simp_all add: geospatial_def Let_def)

lemma value_analysis_frame:
  "df (value_analysis lib e) = df e"
  "total_assets (value_analysis lib e) = total_assets e"
  "total_value (value_analysis lib e) = total_value e"
  "assets_with_valuation (value_analysis lib e) = assets_with_valuation e"
  "df_map (value_analysis lib e) = df_map e"
  "value_by_state (value_analysis lib e) = sort_values_desc lib (groupby_state_sum lib (df e))"
  by (simp_all add: value_analysis_def Let_def)

lemma explore_frame:
  "df (explore c e) = df e"
  "total_assets (explore c e) = total_assets e"
  "total_value (explore c e) = total_value e"
  "assets_with_valuation (explore c e) = assets_with_valuation e"
  "df_map (explore c e) = df_map e"
  "value_by_state (explore c e) = value_by_state e"
  by (simp_all add: explore_def Let_def)

lemmas section_frames =
  portfolio_overview_frame geospatial_frame value_analysis_frame explore_frame

lemma dashboard_frame:
  "df (dashboard lib c e) = df e"
  "total_assets (dashboard lib c e) = length (df e)"
  "total_value (dashboard lib c e) = series_sum lib True (map est_value (df e))"
  "assets_with_valuation (dashboard lib c e) =
     series_get (value_counts (map missing_valuation (df e))) False 0"
  "df_map (dashboard lib c e) = dropna (df e)"
  "value_by_state (dashboard lib c e) = sort_values_desc lib (groupby_state_sum lib (df e))"
  by (simp_all add: dashboard_def section_frames)

text \<open>The elements each section shows, and the page of a whole pass.\<close>

lemma ui_portfolio_overview:
  "ui (portfolio_overview lib e) = ui e @
     [Title ''Real Property Asset Analysis Dashboard'',
      Markdown ''An interactive dashboard for analyzing the value and distribution of real property assets.'',
      Header ''Portfolio Overview'',
      Metric ''Total Assets'' (CountMetric (total_assets (portfolio_overview lib e))),
      Metric ''Total Estimated Value'' (TrillionMetric (total_value (portfolio_overview lib e))),
      Metric ''Assets with Valuation'' (CountMetric (assets_with_valuation (portfolio_overview lib e))),
      Markdown ''---'']"
  by (simp add: portfolio_overview_def Let_def)

lemma ui_geospatial:
  "ui (geospatial e) = ui e @
     [Header ''Geospatial Distribution of Assets'',
      StFolium \<lparr>center = (39.8283, - 98.5795), zoom_start = 4,
                markers = map circle_marker (df_map (geospatial e))\<rparr>]"
  by (simp add: geospatial_def Let_def add_markers_append)

lemma ui_value_analysis:
  "ui (value_analysis lib e) = ui e @
     [Header ''Value Analysis by State'',
      PlotlyChart (px_bar (df_head 10 (value_by_state (value_analysis lib e))))]"
  by (simp add: value_analysis_def Let_def)

lemma ui_explore:
  "ui (explore c e) = ui e @
     [Header ''Explore the Data'', Checkbox ''Show Raw Data Table'']
     @ (if c then [Dataframe (df e)] else [])"
  by (simp add: explore_def Let_def)

lemma ui_dashboard:
  "ui (dashboard lib c e) = ui e @
     [Title ''Real Property Asset Analysis Dashboard'',
      Markdown ''An interactive dashboard for analyzing the value and distribution of real property assets.'',
      Header ''Portfolio Overview'',
      Metric ''Total Assets'' (CountMetric (total_assets (dashboard lib c e))),
      Metric ''Total Estimated Value'' (TrillionMetric (total_value (dashboard lib c e))),
      Metric ''Assets with Valuation'' (CountMetric (assets_with_valuation (dashboard lib c e))),
      Markdown ''---'',
      Header ''Geospatial Distribution of Assets'',
      StFolium \<lparr>center = (39.8283, - 98.5795), zoom_start = 4,
                markers = map circle_marker (df_map (dashboard lib c e))\<rparr>,
      Header ''Value Analysis by State'',
      PlotlyChart (px_bar (df_head 10 (value_by_state (dashboard lib c e)))),
      Header ''Explore the Data'', Checkbox ''Show Raw Data Table'']
     @ (if c then [Dataframe (df (dashboard lib c e))] else [])"
  unfolding dashboard_frame
  by (simp add: dashboard_def ui_explore ui_value_analysis ui_geospatial
      ui_portfolio_overview section_frames)

lemma load_data_NoFile:
  "fs filepath = NoFile \<Longrightarrow>
     load_data fs filepath = Inr (None, [Error (not_found_message filepath)])"
  by (simp add: load_data_def read_csv_def)

text \<open>A file that parses is rendered: the page of the script is the page of the pass.\<close>

lemma app_renders_loaded_table:
  "fs data_path = Csv data \<Longrightarrow>
     app lib fs checked = Inr (ui (dashboard lib checked (init_env data [])))"
  by (simp add: app_def load_data_def read_csv_def)

lemma loaded_table_shows_data:
  "fs data_path = Csv data \<Longrightarrow>
     length (data_outputs (app lib fs checked)) = (if checked then 6 else 5)"
  by (simp add: app_renders_loaded_table data_outputs_def ui_dashboard)

lemma awv_count:
  "assets_with_valuation (dashboard lib checked (init_env data shown)) =
     length (filter (\<lambda>r. missing_valuation r = Some False) data)"
proof -
  have "filter (\<lambda>x. x = Some False) (map missing_valuation data) =
        map missing_valuation (filter (\<lambda>r. missing_valuation r = Some False) data)"
    by (simp add: filter_map comp_def)
  then have "length (filter (\<lambda>x. x = Some False) (map missing_valuation data)) =
        length (filter (\<lambda>r. missing_valuation r = Some False) data)"
    by simp
  then show ?thesis by (simp add: dashboard_frame get_value_counts)
qed




section \<open>The KPIs\<close>

text \<open>
  Claim C5: for every loaded table with N rows, the Total Assets KPI equals N exactly.
  The variable holds N after the pass and the metric shown on the page carries N.
\<close>

theorem total_assets_is_row_count:
  "total_assets (dashboard lib checked (init_env data shown)) = length data
   \<and> Metric ''Total Assets'' (CountMetric (length data))
       \<in> set (ui (dashboard lib checked (init_env data shown)))"
  by (simp add: ui_dashboard dashboard_frame)

text \<open>
  Claim C6: for every loaded table, the Assets-with-valuation KPI equals the number of
  rows whose Missing Valuation flag is false.
\<close>

theorem assets_with_valuation_counts_false_flags:
  "assets_with_valuation (dashboard lib checked (init_env data shown)) =
     length (filter (\<lambda>r. missing_valuation r = Some False) data)
   \<and> Metric ''Assets with Valuation''
         (CountMetric (length (filter (\<lambda>r. missing_valuation r = Some False) data)))
       \<in> set (ui (dashboard lib checked (init_env data shown)))"
  by (simp add: ui_dashboard awv_count)

text \<open>
  Claim C10: a row whose Missing Valuation flag is absent is counted neither as
  valuation-complete nor as missing. The KPI counts exactly the rows whose flag is false;
  with the rows whose flag is true and the rows whose flag is absent they make up the
  table, so the KPI plus the number of flag-true rows is at most Total Assets, and
  strictly less as soon as one flag is absent.
\<close>

theorem absent_flag_counted_on_neither_side:
  fixes data :: dataframe and checked :: bool and shown :: "element list" and lib :: library
  defines "e \<equiv> dashboard lib checked (init_env data shown)"
  defines "flagged \<equiv> length (filter (\<lambda>r. missing_valuation r = Some True) data)"
  shows "assets_with_valuation e = length (filter (\<lambda>r. missing_valuation r = Some False) data)
    \<and> assets_with_valuation e + flagged
        + length (filter (\<lambda>r. missing_valuation r = None) data) = total_assets e
    \<and> assets_with_valuation e + flagged \<le> total_assets e
    \<and> ((\<exists>r \<in> set data. missing_valuation r = None) \<longrightarrow>
          assets_with_valuation e + flagged < total_assets e)"
proof -
  have a: "assets_with_valuation e = length (filter (\<lambda>r. missing_valuation r = Some False) data)"
    unfolding e_def by (rule awv_count)
  have t: "total_assets e = length data"
    by (simp add: e_def dashboard_frame)
  have s: "assets_with_valuation e + flagged
        + length (filter (\<lambda>r. missing_valuation r = None) data) = total_assets e"
    unfolding a t flagged_def by (rule count_flags)
  have "assets_with_valuation e + flagged < total_assets e"
    if "\<exists>r \<in> set data. missing_valuation r = None"
  proof -
    from that have "filter (\<lambda>r. missing_valuation r = None) data \<noteq> []"
      by (simp add: filter_empty_conv)
    then have "0 < length (filter (\<lambda>r. missing_valuation r = None) data)" by simp
    with s show ?thesis by linarith
  qed
  with a s show ?thesis by auto
qed

text \<open>
  In the table with a gap the first asset has no flag: one asset is counted as valued,
  none is flagged, and the table has two rows.
\<close>

theorem absent_flag_witness:
  "assets_with_valuation (dashboard ideal_lib False (init_env gappy [])) = 1
   \<and> length (filter (\<lambda>r. missing_valuation r = Some True) gappy) = 0
   \<and> total_assets (dashboard ideal_lib False (init_env gappy [])) = 2
   \<and> missing_valuation (hd gappy) = None
   \<and> assets_with_valuation (dashboard ideal_lib False (init_env gappy []))
       + length (filter (\<lambda>r. missing_valuation r = Some True) gappy)
       < total_assets (dashboard ideal_lib False (init_env gappy []))"
proof -
  have h: "\<exists>r \<in> set gappy. missing_valuation r = None"
    by (simp add: gappy_def)
  show ?thesis
    using h absent_flag_counted_on_neither_side [of ideal_lib False gappy "[]"]
    by (simp add: gappy_def)
qed




section \<open>The map subset\<close>

text \<open>
  Claim C3: for every loaded table, the map subset contains no row with an absent
  Latitude, Longitude or Estimated Asset Value (USD), contains every row in which all
  three are present, and keeps the retained rows in their original relative order. It
  is the table filtered by the presence of the three cells.
\<close>

theorem map_subset_complete_rows_in_order:
  fixes data :: dataframe and checked :: bool and shown :: "element list" and lib :: library
  defines "kept \<equiv> df_map (dashboard lib checked (init_env data shown))"
  shows "(\<forall>r \<in> set kept. latitude r \<noteq> None \<and> longitude r \<noteq> None \<and> est_value r \<noteq> None)
    \<and> (\<forall>r \<in> set data. latitude r \<noteq> None \<and> longitude r \<noteq> None \<and> est_value r \<noteq> None
          \<longrightarrow> r \<in> set kept)
    \<and> subseq kept data
    \<and> kept = filter (\<lambda>r. latitude r \<noteq> None \<and> longitude r \<noteq> None \<and> est_value r \<noteq> None) data"
proof -
  have s: "kept = filter (\<lambda>r. latitude r \<noteq> None \<and> longitude r \<noteq> None \<and> est_value r \<noteq> None) data"
    by (simp add: kept_def dashboard_frame dropna_filter notna_all_def [abs_def])
  have "subseq kept data" unfolding s by (rule subseq_filter_left)
  with s show ?thesis by auto
qed

text \<open>In the scenario the second row has no latitude; the first and the third are kept.\<close>

theorem map_subset_witness:
  "df_map (dashboard ideal_lib False (init_env scenario [])) = [scenario ! 0, scenario ! 2]
   \<and> latitude (scenario ! 1) = None
   \<and> subseq [scenario ! 0, scenario ! 2] scenario"
  using map_subset_complete_rows_in_order [of ideal_lib False scenario "[]"]
  by (simp add: scenario_def)

section \<open>The state ranking\<close>




section \<open>The loaded table during a pass\<close>

text \<open>
  Claim C9: within a render pass no operation changes the loaded table. Each of the
  four sections (the KPIs, the map subset, the state ranking, the raw table) leaves
  \<open>df\<close> as it found it, so after the whole pass \<open>df\<close> is still the table that was
  loaded: neither derived view is written back, and the raw table shown on request is
  the loaded one.
\<close>

theorem render_keeps_loaded_table:
  "df (portfolio_overview lib e) = df e
   \<and> df (geospatial e) = df e
   \<and> df (value_analysis lib e) = df e
   \<and> df (explore checked e) = df e
   \<and> df (dashboard lib checked (init_env data shown)) = data
   \<and> last (ui (dashboard lib True (init_env data shown))) = Dataframe data"
  by (simp add: section_frames dashboard_frame ui_dashboard)

section \<open>A missing file\<close>

text \<open>
  Claim C2: for every path at which there is no file, the loader shows an error message
  that names the path and returns \<^verbatim>\<open>None\<close> instead of raising; and when that path
  is the one the script loads, the page of the pass is this message alone: no KPI, no
  map, no chart and no table.
\<close>

theorem missing_file_shows_error_only:
  assumes "fs filepath = NoFile"
  shows "load_data fs filepath = Inr (None, [Error (not_found_message filepath)])
    \<and> sublist filepath (not_found_message filepath)
    \<and> (filepath = data_path \<longrightarrow>
         app lib fs checked = Inr [Error (not_found_message data_path)]
         \<and> data_outputs (app lib fs checked) = [])"
proof -
  have l: "load_data fs filepath = Inr (None, [Error (not_found_message filepath)])"
    using assms by (rule load_data_NoFile)
  have n: "sublist filepath (not_found_message filepath)"
    unfolding sublist_def not_found_message_def by (intro exI) (rule append_assoc [symmetric])
  have "app lib fs checked = Inr [Error (not_found_message data_path)]
      \<and> data_outputs (app lib fs checked) = []" if "filepath = data_path"
    using l that by (simp add: app_def data_outputs_def)
  with l n show ?thesis by blast
qed

text \<open>With no file at all, the script's own path is missing.\<close>

theorem missing_file_witness:
  "no_files data_path = NoFile
   \<and> load_data no_files data_path = Inr (None, [Error (not_found_message data_path)])
   \<and> app ideal_lib no_files True = Inr [Error (not_found_message data_path)]
   \<and> data_outputs (app ideal_lib no_files True) = []"
proof -
  have h: "no_files data_path = NoFile" by (simp add: no_files_def)
  show ?thesis
    using h missing_file_shows_error_only [of no_files data_path ideal_lib True]
    by (simp add: data_outputs_def)
qed

end
